theory Spec2Isabelle
  imports Complex_Main
begin

section \<open>Data model (src/types.ts)\<close>

text \<open>
  A TypeScript \<^verbatim>\<open>number\<close> is an IEEE double. The development idealises it as a real
  number: rounding, overflow and the signed zero are not modelled. The only way the step
  function can turn finite inputs into a non-finite number is the division by
  \<^verbatim>\<open>m1 + m2\<close>; that case is written out as \<open>None\<close> (see \<open>div_number\<close> below), so
  every result \<open>Some\<close> stands for a step whose numbers are all finite.
\<close>

record BallState =
  id_ball :: real
  mass :: real
  velocity :: real
  position :: real
  color :: string
  radius :: real

datatype AnalysisStatus = IDLE | LOADING | SUCCESS | ERROR

text \<open>
  \<^verbatim>\<open>SimulationDataPoint\<close>: the fields are, in order, time, v1, v2, totalMomentum and
  totalKineticEnergy.
\<close>

datatype SimulationDataPoint = SimulationDataPoint real real real real real

section \<open>The physics step (src/App.tsx, calculatePhysics)\<close>

definition TRACK_LENGTH :: real where
  "TRACK_LENGTH = 10"

text \<open>
  The mutable local variables of \<^verbatim>\<open>calculatePhysics\<close>: the two proposed positions and the
  two bodies read from \<^verbatim>\<open>ballsRef.current\<close>. The two bodies are distinct objects, so the
  in-place updates of the source are updates of the respective field.
\<close>

record locals =
  nextPos1 :: real
  nextPos2 :: real
  b1 :: BallState
  b2 :: BallState

text \<open>Lines 49 to 53: read the bodies and propose the next positions (explicit Euler).\<close>

definition integrate :: "real \<Rightarrow> BallState \<times> BallState \<Rightarrow> locals" where
  "integrate dt w =
     (case w of (x, y) \<Rightarrow>
        \<lparr>nextPos1 = position x + velocity x * dt,
         nextPos2 = position y + velocity y * dt,
         b1 = x, b2 = y\<rparr>)"

text \<open>Lines 56 to 59: body 1 against the left wall.\<close>

definition wall1 :: "locals \<Rightarrow> locals" where
  "wall1 s =
     (if nextPos1 s \<le> 0
      then s\<lparr>nextPos1 := 0, b1 := (b1 s)\<lparr>velocity := velocity (b1 s) * (- 1)\<rparr>\<rparr>
      else s)"

text \<open>Lines 60 to 63: body 2 against the right wall.\<close>

definition wall2 :: "locals \<Rightarrow> locals" where
  "wall2 s =
     (if nextPos2 s \<ge> TRACK_LENGTH
      then s\<lparr>nextPos2 := TRACK_LENGTH, b2 := (b2 s)\<lparr>velocity := velocity (b2 s) * (- 1)\<rparr>\<rparr>
      else s)"

text \<open>Line 67: the contact predicate, with its margin of 0.1.\<close>

definition contact :: "locals \<Rightarrow> bool" where
  "contact s \<longleftrightarrow> nextPos1 s \<ge> nextPos2 s - 0.1"

text \<open>
  Division of two finite numbers. JavaScript does not raise on a zero divisor: the
  quotient is NaN or an infinity. Neither is a real number, so the model returns \<open>None\<close>.
\<close>

definition div_number :: "real \<Rightarrow> real \<Rightarrow> real option" where
  "div_number a b = (if b = 0 then None else Some (a / b))"

text \<open>Lines 67 to 85: collision resolution; \<open>e\<close> is the \<^verbatim>\<open>elasticity\<close> of the closure.\<close>

definition ballCollision :: "real \<Rightarrow> locals \<Rightarrow> locals option" where
  "ballCollision e s =
     (if contact s then
        (let m1 = mass (b1 s);
             m2 = mass (b2 s);
             v1 = velocity (b1 s);
             v2 = velocity (b2 s)
         in case (div_number ((m1 - e * m2) * v1 + (1 + e) * m2 * v2) (m1 + m2),
                  div_number ((1 + e) * m1 * v1 + (m2 - e * m1) * v2) (m1 + m2)) of
              (Some newV1, Some newV2) \<Rightarrow>
                (let midPoint = (nextPos1 s + nextPos2 s) / 2
                 in Some (s\<lparr>b1 := (b1 s)\<lparr>velocity := newV1\<rparr>,
                            b2 := (b2 s)\<lparr>velocity := newV2\<rparr>,
                            nextPos1 := midPoint - 0.06,
                            nextPos2 := midPoint + 0.06\<rparr>))
            | _ \<Rightarrow> None)
      else Some s)"

text \<open>Lines 88 to 91: commit the positions; the pair is the new \<^verbatim>\<open>ballsRef.current\<close>.\<close>

definition applyUpdates :: "locals \<Rightarrow> BallState \<times> BallState" where
  "applyUpdates s = ((b1 s)\<lparr>position := nextPos1 s\<rparr>, (b2 s)\<lparr>position := nextPos2 s\<rparr>)"

text \<open>
  The whole step. Its arguments are the time delta, the elasticity captured by the
  closure and the content of \<^verbatim>\<open>ballsRef.current\<close>; the result is the new content, which
  the source also copies into the React state of both bodies.
\<close>

definition calculatePhysics ::
  "real \<Rightarrow> real \<Rightarrow> BallState \<times> BallState \<Rightarrow> (BallState \<times> BallState) option" where
  "calculatePhysics dt e w =
     map_option applyUpdates (ballCollision e (wall2 (wall1 (integrate dt w))))"

section \<open>Observables (src/App.tsx, updateCharts and togglePlay)\<close>

definition momentum :: "BallState \<Rightarrow> real" where
  "momentum x = mass x * velocity x"

definition kineticEnergy :: "BallState \<Rightarrow> real" where
  "kineticEnergy x = 0.5 * mass x * (velocity x)\<^sup>2"

definition totalMomentum :: "BallState \<times> BallState \<Rightarrow> real" where
  "totalMomentum w = momentum (fst w) + momentum (snd w)"

definition totalKineticEnergy :: "BallState \<times> BallState \<Rightarrow> real" where
  "totalKineticEnergy w = kineticEnergy (fst w) + kineticEnergy (snd w)"

section \<open>Application state and reset (src/App.tsx, App and handleReset)\<close>

text \<open>The React state cells and the refs that \<^verbatim>\<open>handleReset\<close> reads or writes.\<close>

record AppState =
  isPlaying :: bool
  time :: real
  elasticity :: real
  ball1 :: BallState
  ball2 :: BallState
  dataHistory :: "SimulationDataPoint list"
  analysis :: string
  analysisStatus :: AnalysisStatus
  initialStateSnapshot :: "(real \<times> real) option"
  totalTimeRef :: real
  ballsRef :: "BallState \<times> BallState"

text \<open>The initial values given to \<^verbatim>\<open>useState\<close> and \<^verbatim>\<open>useRef\<close> (lines 18 to 38 and 150).\<close>

definition initBall1 :: BallState where
  "initBall1 = \<lparr>id_ball = 1, mass = 2, velocity = 3, position = 2,
                color = ''cyan'', radius = 0.5\<rparr>"

definition initBall2 :: BallState where
  "initBall2 = \<lparr>id_ball = 2, mass = 2, velocity = - 2, position = 8,
                color = ''fuchsia'', radius = 0.5\<rparr>"

definition initApp :: AppState where
  "initApp = \<lparr>isPlaying = False, time = 0, elasticity = 1,
              ball1 = initBall1, ball2 = initBall2, dataHistory = [],
              analysis = '''', analysisStatus = IDLE, initialStateSnapshot = None,
              totalTimeRef = 0, ballsRef = (initBall1, initBall2)\<rparr>"

text \<open>Lines 186 to 200. The handler takes no argument.\<close>

definition handleReset :: "AppState \<Rightarrow> AppState" where
  "handleReset s =
     s\<lparr>isPlaying := False,
       time := 0,
       totalTimeRef := 0,
       ball1 := (ball1 s)\<lparr>position := 2, velocity := 3\<rparr>,
       ball2 := (ball2 s)\<lparr>position := 8, velocity := - 2\<rparr>,
       ballsRef := ((ball1 s)\<lparr>position := 2, velocity := 3\<rparr>,
                    (ball2 s)\<lparr>position := 8, velocity := - 2\<rparr>),
       dataHistory := [],
       analysis := '''',
       analysisStatus := IDLE,
       initialStateSnapshot := None\<rparr>"

section \<open>Auxiliary facts\<close>

lemmas step_defs =
  calculatePhysics_def integrate_def wall1_def wall2_def contact_def ballCollision_def
  applyUpdates_def div_number_def TRACK_LENGTH_def Let_def

lemmas ex_defs = step_defs initBall1_def initBall2_def

text \<open>The step returns whenever the two masses do not cancel.\<close>

lemma calculatePhysics_returns:
  "mass x + mass y \<noteq> 0 \<Longrightarrow> \<exists>w'. calculatePhysics dt e (x, y) = Some w'"
  by (simp add: step_defs)

lemma calculatePhysics_None_iff:
  "calculatePhysics dt e (x, y) = None \<longleftrightarrow>
     contact (wall2 (wall1 (integrate dt (x, y)))) \<and> mass x + mass y = 0"
  by (simp add: step_defs)

lemma momentum_algebra:
  fixes m1 m2 v1 v2 e :: real
  assumes "m1 + m2 \<noteq> 0"
  shows "m1 * (((m1 - e * m2) * v1 + (1 + e) * m2 * v2) / (m1 + m2))
           + m2 * (((1 + e) * m1 * v1 + (m2 - e * m1) * v2) / (m1 + m2))
        = m1 * v1 + m2 * v2"
proof -
  define a where "a = (m1 - e * m2) * v1 + (1 + e) * m2 * v2"
  define b where "b = (1 + e) * m1 * v1 + (m2 - e * m1) * v2"
  have "m1 * a + m2 * b = (m1 * v1 + m2 * v2) * (m1 + m2)"
    by (simp add: a_def b_def algebra_simps)
  then have "(m1 * a + m2 * b) / (m1 + m2) = m1 * v1 + m2 * v2"
    using assms by simp
  moreover have "m1 * (a / (m1 + m2)) + m2 * (b / (m1 + m2)) = (m1 * a + m2 * b) / (m1 + m2)"
    by (simp add: add_divide_distrib)
  ultimately show ?thesis
    unfolding a_def b_def by simp
qed

lemma energy_algebra:
  fixes m1 m2 v1 v2 e :: real
  assumes "m1 + m2 \<noteq> 0"
  shows "(m1 * v1\<^sup>2 + m2 * v2\<^sup>2)
        - (m1 * (((m1 - e * m2) * v1 + (1 + e) * m2 * v2) / (m1 + m2))\<^sup>2
           + m2 * (((1 + e) * m1 * v1 + (m2 - e * m1) * v2) / (m1 + m2))\<^sup>2)
        = m1 * m2 * (1 - e\<^sup>2) * (v1 - v2)\<^sup>2 / (m1 + m2)"
proof -
  have "(m1 + m2)\<^sup>2 \<noteq> 0" using assms by simp
  then show ?thesis using assms
    apply (simp add: power_divide)
    apply (simp add: field_simps)
    apply (simp add: power2_eq_square)
    apply algebra
    done
qed

lemma nextPos1_boundary:
  "nextPos1 (wall2 (wall1 (integrate dt (x, y)))) =
     (if position x + velocity x * dt \<le> 0 then 0 else position x + velocity x * dt)"
  by (simp add: integrate_def wall1_def wall2_def)

lemma nextPos2_boundary:
  "nextPos2 (wall2 (wall1 (integrate dt (x, y)))) =
     (if position y + velocity y * dt \<ge> TRACK_LENGTH then TRACK_LENGTH
      else position y + velocity y * dt)"
  by (simp add: integrate_def wall1_def wall2_def)

lemma b1_boundary:
  "b1 (wall2 (wall1 (integrate dt (x, y)))) =
     (if position x + velocity x * dt \<le> 0 then x\<lparr>velocity := - velocity x\<rparr> else x)"
  by (simp add: integrate_def wall1_def wall2_def)

lemma b2_boundary:
  "b2 (wall2 (wall1 (integrate dt (x, y)))) =
     (if position y + velocity y * dt \<ge> TRACK_LENGTH then y\<lparr>velocity := - velocity y\<rparr> else y)"
  by (simp add: integrate_def wall1_def wall2_def)

lemma ballCollision_contact:
  assumes "contact s" and "mass (b1 s) + mass (b2 s) \<noteq> 0"
  shows "ballCollision e s =
     Some (s\<lparr>b1 := (b1 s)\<lparr>velocity :=
                 ((mass (b1 s) - e * mass (b2 s)) * velocity (b1 s)
                    + (1 + e) * mass (b2 s) * velocity (b2 s)) / (mass (b1 s) + mass (b2 s))\<rparr>,
             b2 := (b2 s)\<lparr>velocity :=
                 ((1 + e) * mass (b1 s) * velocity (b1 s)
                    + (mass (b2 s) - e * mass (b1 s)) * velocity (b2 s)) / (mass (b1 s) + mass (b2 s))\<rparr>,
             nextPos1 := (nextPos1 s + nextPos2 s) / 2 - 0.06,
             nextPos2 := (nextPos1 s + nextPos2 s) / 2 + 0.06\<rparr>)"
  using assms by (simp add: ballCollision_def div_number_def Let_def)

lemma ballCollision_no_contact: "\<not> contact s \<Longrightarrow> ballCollision e s = Some s"
  by (simp add: ballCollision_def)

lemma mass_boundary:
  "mass (b1 (wall2 (wall1 (integrate dt (x, y))))) = mass x"
  "mass (b2 (wall2 (wall1 (integrate dt (x, y))))) = mass y"
  by (simp_all add: b1_boundary b2_boundary)

lemma energy_loss_sign:
  fixes m1 m2 v1 v2 e :: real
  assumes "0 < m1" "0 < m2" "0 \<le> e" "e \<le> 1"
  shows "0 \<le> m1 * m2 * (1 - e\<^sup>2) * (v1 - v2)\<^sup>2 / (m1 + m2)"
    and "m1 * m2 * (1 - e\<^sup>2) * (v1 - v2)\<^sup>2 / (m1 + m2) = 0 \<longleftrightarrow> e = 1 \<or> v1 = v2"
proof -
  have e2: "e\<^sup>2 \<le> 1"
    using assms by (simp add: power_le_one)
  then show "0 \<le> m1 * m2 * (1 - e\<^sup>2) * (v1 - v2)\<^sup>2 / (m1 + m2)"
    using assms by simp
  have "e\<^sup>2 = 1 \<longleftrightarrow> e = 1"
    using assms by (auto simp add: power2_eq_1_iff)
  then show "m1 * m2 * (1 - e\<^sup>2) * (v1 - v2)\<^sup>2 / (m1 + m2) = 0 \<longleftrightarrow> e = 1 \<or> v1 = v2"
    using assms by auto
qed

lemma sq_velocity_boundary:
  "(velocity (b1 (wall2 (wall1 (integrate dt (x, y))))))\<^sup>2 = (velocity x)\<^sup>2"
  "(velocity (b2 (wall2 (wall1 (integrate dt (x, y))))))\<^sup>2 = (velocity y)\<^sup>2"
  by (simp_all add: b1_boundary b2_boundary)

lemma contact_boundary:
  "contact (wall2 (wall1 (integrate dt (x, y)))) \<longleftrightarrow>
     (if position x + velocity x * dt \<le> 0 then 0 else position x + velocity x * dt)
       \<ge> (if TRACK_LENGTH \<le> position y + velocity y * dt then TRACK_LENGTH
           else position y + velocity y * dt) - 0.1"
  by (simp only: contact_def nextPos1_boundary nextPos2_boundary)

section \<open>Momentum\<close>

text \<open>
  C1. In a step in which the contact predicate fires and neither wall reflection fires,
  the total momentum after the step equals the total momentum before it, for every
  restitution coefficient (in particular for every one in the unit interval), provided
  the masses do not cancel. When the contact predicate does not fire, the collision
  stage leaves the velocity, and so the momentum, of each body unchanged.
\<close>

theorem momentum_conservation:
  "(mass x + mass y \<noteq> 0 \<and> 0 < position x + velocity x * dt \<and>
    position y + velocity y * dt < TRACK_LENGTH \<and>
    contact (wall2 (wall1 (integrate dt (x, y)))) \<longrightarrow>
      (\<exists>x' y'. calculatePhysics dt e (x, y) = Some (x', y') \<and>
          mass x' * velocity x' + mass y' * velocity y' = mass x * velocity x + mass y * velocity y \<and>
          totalMomentum (x', y') = totalMomentum (x, y))) \<and>
   (\<not> contact s \<longrightarrow>
      (\<exists>s'. ballCollision e s = Some s' \<and>
          velocity (b1 s') = velocity (b1 s) \<and> velocity (b2 s') = velocity (b2 s) \<and>
          momentum (b1 s') = momentum (b1 s) \<and> momentum (b2 s') = momentum (b2 s)))"
proof (intro conjI impI)
  assume h: "mass x + mass y \<noteq> 0 \<and> 0 < position x + velocity x * dt \<and>
    position y + velocity y * dt < TRACK_LENGTH \<and>
    contact (wall2 (wall1 (integrate dt (x, y))))"
  let ?s = "wall2 (wall1 (integrate dt (x, y)))"
  have bx: "b1 ?s = x" and by': "b2 ?s = y"
    using h by (simp_all add: b1_boundary b2_boundary)
  have c: "contact ?s" and m: "mass (b1 ?s) + mass (b2 ?s) \<noteq> 0"
    using h by (simp_all add: mass_boundary)
  show "\<exists>x' y'. calculatePhysics dt e (x, y) = Some (x', y') \<and>
          mass x' * velocity x' + mass y' * velocity y' = mass x * velocity x + mass y * velocity y \<and>
          totalMomentum (x', y') = totalMomentum (x, y)"
    using h momentum_algebra [of "mass x" "mass y" e "velocity x" "velocity y"]
    by (simp add: calculatePhysics_def ballCollision_contact [OF c m] bx by' applyUpdates_def
        totalMomentum_def momentum_def)
next
  assume "\<not> contact s"
  then show "\<exists>s'. ballCollision e s = Some s' \<and>
          velocity (b1 s') = velocity (b1 s) \<and> velocity (b2 s') = velocity (b2 s) \<and>
          momentum (b1 s') = momentum (b1 s) \<and> momentum (b2 s') = momentum (b2 s)"
    by (simp add: ballCollision_no_contact)
qed

theorem momentum_conservation_witness:
  "mass (initBall1\<lparr>position := 53/10\<rparr>) + mass (initBall2\<lparr>position := 58/10\<rparr>) \<noteq> 0 \<and>
   0 < position (initBall1\<lparr>position := 53/10\<rparr>) + velocity (initBall1\<lparr>position := 53/10\<rparr>) * (1/10) \<and>
   position (initBall2\<lparr>position := 58/10\<rparr>) + velocity (initBall2\<lparr>position := 58/10\<rparr>) * (1/10)
     < TRACK_LENGTH \<and>
   contact (wall2 (wall1 (integrate (1/10)
      (initBall1\<lparr>position := 53/10\<rparr>, initBall2\<lparr>position := 58/10\<rparr>)))) \<and>
   calculatePhysics (1/10) (1/2) (initBall1\<lparr>position := 53/10\<rparr>, initBall2\<lparr>position := 58/10\<rparr>)
     = Some (initBall1\<lparr>position := 554/100, velocity := - 3/4\<rparr>,
             initBall2\<lparr>position := 566/100, velocity := 7/4\<rparr>) \<and>
   totalMomentum (initBall1\<lparr>position := 554/100, velocity := - 3/4\<rparr>,
                  initBall2\<lparr>position := 566/100, velocity := 7/4\<rparr>)
     = totalMomentum (initBall1\<lparr>position := 53/10\<rparr>, initBall2\<lparr>position := 58/10\<rparr>) \<and>
   \<not> contact (integrate (1/10) (initBall1, initBall2)) \<and>
   ballCollision (1/2) (integrate (1/10) (initBall1, initBall2))
     = Some (integrate (1/10) (initBall1, initBall2))"
  using momentum_conservation [of "initBall1\<lparr>position := 53/10\<rparr>" "initBall2\<lparr>position := 58/10\<rparr>"
      "1/10" "1/2" "integrate (1/10) (initBall1, initBall2)"]
  by (simp add: ex_defs totalMomentum_def momentum_def)

section \<open>Collision velocities\<close>

text \<open>
  C2. Whenever the contact predicate fires (and the masses do not cancel), the step
  returns with the velocities
  \<open>v1' = ((m1 - e*m2)*v1 + (1+e)*m2*v2) / (m1 + m2)\<close> and
  \<open>v2' = ((1+e)*m1*v1 + (m2 - e*m1)*v2) / (m1 + m2)\<close>, where \<open>v1\<close> and \<open>v2\<close> are the
  velocities left by the boundary stage. For \<open>m1 = m2 = 2\<close>, \<open>v1 = 3\<close>, \<open>v2 = -2\<close> they
  are \<open>-2\<close> and \<open>3\<close> when \<open>e = 1\<close>, and both \<open>0.5\<close> when \<open>e = 0\<close>.
\<close>

theorem collision_velocities:
  "mass x + mass y \<noteq> 0 \<and> contact (wall2 (wall1 (integrate dt (x, y)))) \<longrightarrow>
     (\<exists>x' y'. calculatePhysics dt e (x, y) = Some (x', y') \<and>
        velocity x' =
          ((mass x - e * mass y) * velocity (b1 (wall2 (wall1 (integrate dt (x, y)))))
             + (1 + e) * mass y * velocity (b2 (wall2 (wall1 (integrate dt (x, y))))))
          / (mass x + mass y) \<and>
        velocity y' =
          ((1 + e) * mass x * velocity (b1 (wall2 (wall1 (integrate dt (x, y)))))
             + (mass y - e * mass x) * velocity (b2 (wall2 (wall1 (integrate dt (x, y))))))
          / (mass x + mass y) \<and>
        (mass x = 2 \<and> mass y = 2 \<and>
         velocity (b1 (wall2 (wall1 (integrate dt (x, y))))) = 3 \<and>
         velocity (b2 (wall2 (wall1 (integrate dt (x, y))))) = - 2 \<longrightarrow>
           (e = 1 \<longrightarrow> velocity x' = - 2 \<and> velocity y' = 3) \<and>
           (e = 0 \<longrightarrow> velocity x' = 0.5 \<and> velocity y' = 0.5)))"
proof
  assume h: "mass x + mass y \<noteq> 0 \<and> contact (wall2 (wall1 (integrate dt (x, y))))"
  let ?s = "wall2 (wall1 (integrate dt (x, y)))"
  have c: "contact ?s" and m: "mass (b1 ?s) + mass (b2 ?s) \<noteq> 0"
    using h by (simp_all add: mass_boundary)
  show "\<exists>x' y'. calculatePhysics dt e (x, y) = Some (x', y') \<and>
        velocity x' =
          ((mass x - e * mass y) * velocity (b1 ?s) + (1 + e) * mass y * velocity (b2 ?s))
          / (mass x + mass y) \<and>
        velocity y' =
          ((1 + e) * mass x * velocity (b1 ?s) + (mass y - e * mass x) * velocity (b2 ?s))
          / (mass x + mass y) \<and>
        (mass x = 2 \<and> mass y = 2 \<and> velocity (b1 ?s) = 3 \<and> velocity (b2 ?s) = - 2 \<longrightarrow>
           (e = 1 \<longrightarrow> velocity x' = - 2 \<and> velocity y' = 3) \<and>
           (e = 0 \<longrightarrow> velocity x' = 0.5 \<and> velocity y' = 0.5))"
    by (simp add: calculatePhysics_def ballCollision_contact [OF c m] applyUpdates_def
        mass_boundary)
qed

theorem collision_velocities_witness:
  "(mass (initBall1\<lparr>position := 53/10\<rparr>) + mass (initBall2\<lparr>position := 58/10\<rparr>) \<noteq> 0 \<and>
    contact (wall2 (wall1 (integrate (1/10)
      (initBall1\<lparr>position := 53/10\<rparr>, initBall2\<lparr>position := 58/10\<rparr>))))) \<and>
   mass (initBall1\<lparr>position := 53/10\<rparr>) = 2 \<and> mass (initBall2\<lparr>position := 58/10\<rparr>) = 2 \<and>
   velocity (b1 (wall2 (wall1 (integrate (1/10)
      (initBall1\<lparr>position := 53/10\<rparr>, initBall2\<lparr>position := 58/10\<rparr>))))) = 3 \<and>
   velocity (b2 (wall2 (wall1 (integrate (1/10)
      (initBall1\<lparr>position := 53/10\<rparr>, initBall2\<lparr>position := 58/10\<rparr>))))) = - 2 \<and>
   calculatePhysics (1/10) 1 (initBall1\<lparr>position := 53/10\<rparr>, initBall2\<lparr>position := 58/10\<rparr>)
     = Some (initBall1\<lparr>position := 554/100, velocity := - 2\<rparr>,
             initBall2\<lparr>position := 566/100, velocity := 3\<rparr>) \<and>
   calculatePhysics (1/10) 0 (initBall1\<lparr>position := 53/10\<rparr>, initBall2\<lparr>position := 58/10\<rparr>)
     = Some (initBall1\<lparr>position := 554/100, velocity := 1/2\<rparr>,
             initBall2\<lparr>position := 566/100, velocity := 1/2\<rparr>)"
  using collision_velocities [of "initBall1\<lparr>position := 53/10\<rparr>" "initBall2\<lparr>position := 58/10\<rparr>"
      "1/10" 1]
    collision_velocities [of "initBall1\<lparr>position := 53/10\<rparr>" "initBall2\<lparr>position := 58/10\<rparr>"
      "1/10" 0]
  by (simp add: ex_defs)

section \<open>Kinetic energy\<close>

text \<open>
  The claim C3 says that a collision keeps the kinetic energy only when \<open>e = 1\<close>. The
  step below resolves a collision of two bodies with the same velocity and \<open>e = 0.5\<close>:
  the contact predicate fires because the bodies are 0.05 apart, the formula returns the
  common velocity, and the kinetic energy is what it was.
\<close>

theorem energy_equality_counterexample:
  "0 < mass (initBall1\<lparr>position := 5, velocity := 1\<rparr>) \<and>
   0 < mass (initBall2\<lparr>position := 505/100, velocity := 1\<rparr>) \<and>
   (0::real) \<le> 1/2 \<and> (1/2::real) \<le> 1 \<and>
   contact (wall2 (wall1 (integrate (1/100)
     (initBall1\<lparr>position := 5, velocity := 1\<rparr>, initBall2\<lparr>position := 505/100, velocity := 1\<rparr>)))) \<and>
   calculatePhysics (1/100) (1/2)
     (initBall1\<lparr>position := 5, velocity := 1\<rparr>, initBall2\<lparr>position := 505/100, velocity := 1\<rparr>)
     = Some (initBall1\<lparr>position := 4975/1000, velocity := 1\<rparr>,
             initBall2\<lparr>position := 5095/1000, velocity := 1\<rparr>) \<and>
   totalKineticEnergy (initBall1\<lparr>position := 4975/1000, velocity := 1\<rparr>,
                       initBall2\<lparr>position := 5095/1000, velocity := 1\<rparr>)
     = totalKineticEnergy (initBall1\<lparr>position := 5, velocity := 1\<rparr>,
                           initBall2\<lparr>position := 505/100, velocity := 1\<rparr>) \<and>
   (1/2::real) \<noteq> 1"
  by (simp add: ex_defs totalKineticEnergy_def kineticEnergy_def)

text \<open>
  C3, amended. For every collision resolved by the step with positive masses and a
  restitution coefficient in the unit interval, the total kinetic energy after the step
  is at most the total kinetic energy before it, and the two are equal if and only if
  \<open>e = 1\<close> or the two velocities entering the collision (as left by the boundary stage)
  are equal. The loss is \<open>m1*m2*(1 - e^2)*(v1 - v2)^2 / (2*(m1 + m2))\<close>.
\<close>

theorem energy_non_increase:
  "0 < mass x \<and> 0 < mass y \<and> 0 \<le> e \<and> e \<le> 1 \<and>
   contact (wall2 (wall1 (integrate dt (x, y)))) \<longrightarrow>
     (\<exists>x' y'. calculatePhysics dt e (x, y) = Some (x', y') \<and>
        totalKineticEnergy (x', y') \<le> totalKineticEnergy (x, y) \<and>
        (totalKineticEnergy (x', y') = totalKineticEnergy (x, y) \<longleftrightarrow>
           e = 1 \<or> velocity (b1 (wall2 (wall1 (integrate dt (x, y)))))
                    = velocity (b2 (wall2 (wall1 (integrate dt (x, y)))))))"
proof
  assume h: "0 < mass x \<and> 0 < mass y \<and> 0 \<le> e \<and> e \<le> 1 \<and>
    contact (wall2 (wall1 (integrate dt (x, y))))"
  let ?s = "wall2 (wall1 (integrate dt (x, y)))"
  let ?v1 = "velocity (b1 ?s)" and ?v2 = "velocity (b2 ?s)"
  let ?n1 = "((mass x - e * mass y) * ?v1 + (1 + e) * mass y * ?v2) / (mass x + mass y)"
  let ?n2 = "((1 + e) * mass x * ?v1 + (mass y - e * mass x) * ?v2) / (mass x + mass y)"
  let ?D = "mass x * mass y * (1 - e\<^sup>2) * (?v1 - ?v2)\<^sup>2 / (mass x + mass y)"
  have nz: "mass x + mass y \<noteq> 0"
    using h by simp
  have c: "contact ?s" and m: "mass (b1 ?s) + mass (b2 ?s) \<noteq> 0"
    using h by (simp_all add: mass_boundary)
  let ?x' = "(b1 ?s)\<lparr>velocity := ?n1, position := (nextPos1 ?s + nextPos2 ?s) / 2 - 0.06\<rparr>"
  let ?y' = "(b2 ?s)\<lparr>velocity := ?n2, position := (nextPos1 ?s + nextPos2 ?s) / 2 + 0.06\<rparr>"
  have step: "calculatePhysics dt e (x, y) = Some (?x', ?y')"
    by (simp add: calculatePhysics_def ballCollision_contact [OF c m] applyUpdates_def
        mass_boundary)
  define KA where "KA = mass x * ?v1\<^sup>2 + mass y * ?v2\<^sup>2"
  define KB where "KB = mass x * ?n1\<^sup>2 + mass y * ?n2\<^sup>2"
  define D where "D = mass x * mass y * (1 - e\<^sup>2) * (?v1 - ?v2)\<^sup>2 / (mass x + mass y)"
  have before: "totalKineticEnergy (x, y) = 0.5 * KA"
    by (simp add: KA_def totalKineticEnergy_def kineticEnergy_def sq_velocity_boundary)
  have after: "totalKineticEnergy (?x', ?y') = 0.5 * KB"
    by (simp add: KB_def totalKineticEnergy_def kineticEnergy_def mass_boundary)
  have loss: "KA - KB = D"
    unfolding KA_def KB_def D_def by (rule energy_algebra [OF nz])
  have sign: "0 \<le> D" and zero: "D = 0 \<longleftrightarrow> e = 1 \<or> ?v1 = ?v2"
    unfolding D_def using h energy_loss_sign [of "mass x" "mass y" e ?v1 ?v2] by simp_all
  have le: "0.5 * KB \<le> 0.5 * KA"
    using loss sign by simp
  have "0.5 * KB = 0.5 * KA \<longleftrightarrow> D = 0"
    using loss by auto
  then have eq: "0.5 * KB = 0.5 * KA \<longleftrightarrow> e = 1 \<or> ?v1 = ?v2"
    using zero by simp
  have "totalKineticEnergy (?x', ?y') \<le> totalKineticEnergy (x, y) \<and>
        (totalKineticEnergy (?x', ?y') = totalKineticEnergy (x, y) \<longleftrightarrow> e = 1 \<or> ?v1 = ?v2)"
    unfolding before after using le eq by simp
  with step show "\<exists>x' y'. calculatePhysics dt e (x, y) = Some (x', y') \<and>
        totalKineticEnergy (x', y') \<le> totalKineticEnergy (x, y) \<and>
        (totalKineticEnergy (x', y') = totalKineticEnergy (x, y) \<longleftrightarrow> e = 1 \<or> ?v1 = ?v2)"
    by (intro exI conjI) (rule step, simp_all)
qed

theorem energy_non_increase_witness:
  "(0 < mass (initBall1\<lparr>position := 53/10\<rparr>) \<and> 0 < mass (initBall2\<lparr>position := 58/10\<rparr>) \<and>
    (0::real) \<le> 1/2 \<and> (1/2::real) \<le> 1 \<and> (0::real) \<le> 1 \<and> (1::real) \<le> 1 \<and>
    contact (wall2 (wall1 (integrate (1/10)
      (initBall1\<lparr>position := 53/10\<rparr>, initBall2\<lparr>position := 58/10\<rparr>))))) \<and>
   totalKineticEnergy (initBall1\<lparr>position := 53/10\<rparr>, initBall2\<lparr>position := 58/10\<rparr>) = 13 \<and>
   calculatePhysics (1/10) (1/2) (initBall1\<lparr>position := 53/10\<rparr>, initBall2\<lparr>position := 58/10\<rparr>)
     = Some (initBall1\<lparr>position := 554/100, velocity := - 3/4\<rparr>,
             initBall2\<lparr>position := 566/100, velocity := 7/4\<rparr>) \<and>
   totalKineticEnergy (initBall1\<lparr>position := 554/100, velocity := - 3/4\<rparr>,
                       initBall2\<lparr>position := 566/100, velocity := 7/4\<rparr>) = 29/8 \<and>
   calculatePhysics (1/10) 1 (initBall1\<lparr>position := 53/10\<rparr>, initBall2\<lparr>position := 58/10\<rparr>)
     = Some (initBall1\<lparr>position := 554/100, velocity := - 2\<rparr>,
             initBall2\<lparr>position := 566/100, velocity := 3\<rparr>) \<and>
   totalKineticEnergy (initBall1\<lparr>position := 554/100, velocity := - 2\<rparr>,
                       initBall2\<lparr>position := 566/100, velocity := 3\<rparr>) = 13"
  using energy_non_increase [of "initBall1\<lparr>position := 53/10\<rparr>" "initBall2\<lparr>position := 58/10\<rparr>"
      "1/2" "1/10"]
    energy_non_increase [of "initBall1\<lparr>position := 53/10\<rparr>" "initBall2\<lparr>position := 58/10\<rparr>"
      1 "1/10"]
  by (simp add: ex_defs totalKineticEnergy_def kineticEnergy_def power2_eq_square)

section \<open>Positions after a collision\<close>

text \<open>
  C4. The claim is that a step started with both positions in \<open>[0, TRACK_LENGTH]\<close>
  ends with both positions in that range. The wall checks clamp a proposed position to
  the track, but the separation after a collision is written without such a check: in
  the step below body 1 is clamped to the wall at 0, the contact predicate fires with
  body 2 proposed at 0.05, and the separation places body 1 at \<open>0.025 - 0.06\<close>, left of
  the wall.
\<close>

theorem separation_leaves_track:
  "0 \<le> position (initBall1\<lparr>position := 1/100, velocity := - 1\<rparr>) \<and>
   position (initBall1\<lparr>position := 1/100, velocity := - 1\<rparr>) \<le> TRACK_LENGTH \<and>
   0 \<le> position (initBall2\<lparr>position := 15/100, velocity := - 1\<rparr>) \<and>
   position (initBall2\<lparr>position := 15/100, velocity := - 1\<rparr>) \<le> TRACK_LENGTH \<and>
   calculatePhysics (1/10) 1
     (initBall1\<lparr>position := 1/100, velocity := - 1\<rparr>,
      initBall2\<lparr>position := 15/100, velocity := - 1\<rparr>)
     = Some (initBall1\<lparr>position := - 35/1000, velocity := - 1\<rparr>,
             initBall2\<lparr>position := 85/1000, velocity := 1\<rparr>) \<and>
   position (initBall1\<lparr>position := - 35/1000, velocity := - 1\<rparr>) < 0"
  by (simp add: ex_defs)

text \<open>
  C5. Whenever the contact predicate fires (and the masses do not cancel), the step
  returns with body 1 at the midpoint of the two proposed positions minus 0.06 and body
  2 at that midpoint plus 0.06; the gap between them is 0.12 for every restitution
  coefficient, and body 1 is left of body 2.
\<close>

theorem collision_separation:
  "mass x + mass y \<noteq> 0 \<and> contact (wall2 (wall1 (integrate dt (x, y)))) \<longrightarrow>
     (\<exists>x' y'. calculatePhysics dt e (x, y) = Some (x', y') \<and>
        position x' = (nextPos1 (wall2 (wall1 (integrate dt (x, y))))
                       + nextPos2 (wall2 (wall1 (integrate dt (x, y))))) / 2 - 0.06 \<and>
        position y' = (nextPos1 (wall2 (wall1 (integrate dt (x, y))))
                       + nextPos2 (wall2 (wall1 (integrate dt (x, y))))) / 2 + 0.06 \<and>
        position y' - position x' = 0.12 \<and>
        position x' \<le> position y')"
proof
  assume h: "mass x + mass y \<noteq> 0 \<and> contact (wall2 (wall1 (integrate dt (x, y))))"
  let ?s = "wall2 (wall1 (integrate dt (x, y)))"
  have c: "contact ?s" and m: "mass (b1 ?s) + mass (b2 ?s) \<noteq> 0"
    using h by (simp_all add: mass_boundary)
  show "\<exists>x' y'. calculatePhysics dt e (x, y) = Some (x', y') \<and>
        position x' = (nextPos1 ?s + nextPos2 ?s) / 2 - 0.06 \<and>
        position y' = (nextPos1 ?s + nextPos2 ?s) / 2 + 0.06 \<and>
        position y' - position x' = 0.12 \<and>
        position x' \<le> position y'"
    by (simp add: calculatePhysics_def ballCollision_contact [OF c m] applyUpdates_def)
qed

theorem collision_separation_witness:
  "(mass (initBall1\<lparr>position := 6\<rparr>) + mass (initBall2\<lparr>position := 5\<rparr>) \<noteq> 0 \<and>
    contact (wall2 (wall1 (integrate (1/10)
      (initBall1\<lparr>position := 6\<rparr>, initBall2\<lparr>position := 5\<rparr>))))) \<and>
   nextPos1 (wall2 (wall1 (integrate (1/10)
      (initBall1\<lparr>position := 6\<rparr>, initBall2\<lparr>position := 5\<rparr>)))) = 63/10 \<and>
   nextPos2 (wall2 (wall1 (integrate (1/10)
      (initBall1\<lparr>position := 6\<rparr>, initBall2\<lparr>position := 5\<rparr>)))) = 48/10 \<and>
   calculatePhysics (1/10) 1 (initBall1\<lparr>position := 6\<rparr>, initBall2\<lparr>position := 5\<rparr>)
     = Some (initBall1\<lparr>position := 549/100, velocity := - 2\<rparr>,
             initBall2\<lparr>position := 561/100, velocity := 3\<rparr>) \<and>
   position (initBall2\<lparr>position := 561/100, velocity := 3\<rparr>)
     - position (initBall1\<lparr>position := 549/100, velocity := - 2\<rparr>) = 0.12"
  using collision_separation [of "initBall1\<lparr>position := 6\<rparr>" "initBall2\<lparr>position := 5\<rparr>" "1/10" 1]
  by (simp add: ex_defs)

section \<open>Walls\<close>

text \<open>
  C6. If the proposed position of body 1 is at most 0, the boundary stage sets it to 0
  and negates the velocity of body 1; if the proposed position of body 2 is at least
  \<open>TRACK_LENGTH\<close>, the stage sets it to \<open>TRACK_LENGTH\<close> and negates the velocity of body
  2. The stage never changes the kinetic energy of a body, and a body whose proposed
  position does not reach its wall leaves the stage with that proposed position and
  unchanged. When no contact follows, these values are the result of the step.
\<close>

theorem wall_reflection:
  "(position x + velocity x * dt \<le> 0 \<longrightarrow>
      nextPos1 (wall2 (wall1 (integrate dt (x, y)))) = 0 \<and>
      velocity (b1 (wall2 (wall1 (integrate dt (x, y))))) = - velocity x) \<and>
   (TRACK_LENGTH \<le> position y + velocity y * dt \<longrightarrow>
      nextPos2 (wall2 (wall1 (integrate dt (x, y)))) = TRACK_LENGTH \<and>
      velocity (b2 (wall2 (wall1 (integrate dt (x, y))))) = - velocity y) \<and>
   kineticEnergy (b1 (wall2 (wall1 (integrate dt (x, y))))) = kineticEnergy x \<and>
   kineticEnergy (b2 (wall2 (wall1 (integrate dt (x, y))))) = kineticEnergy y \<and>
   (0 < position x + velocity x * dt \<longrightarrow>
      nextPos1 (wall2 (wall1 (integrate dt (x, y)))) = position x + velocity x * dt \<and>
      b1 (wall2 (wall1 (integrate dt (x, y)))) = x) \<and>
   (position y + velocity y * dt < TRACK_LENGTH \<longrightarrow>
      nextPos2 (wall2 (wall1 (integrate dt (x, y)))) = position y + velocity y * dt \<and>
      b2 (wall2 (wall1 (integrate dt (x, y)))) = y) \<and>
   (\<not> contact (wall2 (wall1 (integrate dt (x, y)))) \<longrightarrow>
      calculatePhysics dt e (x, y) =
        Some ((b1 (wall2 (wall1 (integrate dt (x, y)))))
                \<lparr>position := nextPos1 (wall2 (wall1 (integrate dt (x, y))))\<rparr>,
              (b2 (wall2 (wall1 (integrate dt (x, y)))))
                \<lparr>position := nextPos2 (wall2 (wall1 (integrate dt (x, y))))\<rparr>))"
proof (intro conjI impI)
  assume "\<not> contact (wall2 (wall1 (integrate dt (x, y))))"
  then show "calculatePhysics dt e (x, y) =
        Some ((b1 (wall2 (wall1 (integrate dt (x, y)))))
                \<lparr>position := nextPos1 (wall2 (wall1 (integrate dt (x, y))))\<rparr>,
              (b2 (wall2 (wall1 (integrate dt (x, y)))))
                \<lparr>position := nextPos2 (wall2 (wall1 (integrate dt (x, y))))\<rparr>)"
    by (simp add: calculatePhysics_def ballCollision_no_contact applyUpdates_def)
qed (simp_all add: nextPos1_boundary nextPos2_boundary b1_boundary b2_boundary
       kineticEnergy_def)

theorem wall_reflection_witness:
  "position (initBall1\<lparr>position := 1/10, velocity := - 3\<rparr>)
     + velocity (initBall1\<lparr>position := 1/10, velocity := - 3\<rparr>) * (1/10) \<le> 0 \<and>
   position initBall2 + velocity initBall2 * (1/10) < TRACK_LENGTH \<and>
   \<not> contact (wall2 (wall1 (integrate (1/10)
        (initBall1\<lparr>position := 1/10, velocity := - 3\<rparr>, initBall2)))) \<and>
   calculatePhysics (1/10) 1 (initBall1\<lparr>position := 1/10, velocity := - 3\<rparr>, initBall2)
     = Some (initBall1\<lparr>position := 0, velocity := 3\<rparr>, initBall2\<lparr>position := 78/10\<rparr>) \<and>
   0 < position initBall1 + velocity initBall1 * (1/10) \<and>
   TRACK_LENGTH \<le> position (initBall2\<lparr>position := 99/10, velocity := 2\<rparr>)
     + velocity (initBall2\<lparr>position := 99/10, velocity := 2\<rparr>) * (1/10) \<and>
   \<not> contact (wall2 (wall1 (integrate (1/10)
        (initBall1, initBall2\<lparr>position := 99/10, velocity := 2\<rparr>)))) \<and>
   calculatePhysics (1/10) 1 (initBall1, initBall2\<lparr>position := 99/10, velocity := 2\<rparr>)
     = Some (initBall1\<lparr>position := 23/10\<rparr>, initBall2\<lparr>position := 10, velocity := - 2\<rparr>)"
  using wall_reflection [of "initBall1\<lparr>position := 1/10, velocity := - 3\<rparr>" "1/10" initBall2 1]
    wall_reflection [of initBall1 "1/10" "initBall2\<lparr>position := 99/10, velocity := 2\<rparr>" 1]
  by (simp add: ex_defs)

text \<open>
  C7. The boundary stage comes before the collision stage: the contact predicate is
  evaluated on the clamped proposed positions, and when a wall crossing and a contact
  fall in the same step, the collision formula and the midpoint use the negated
  velocity and the clamped position of the reflected body.
\<close>

theorem boundary_before_collision:
  "(mass x + mass y \<noteq> 0 \<and> position x + velocity x * dt \<le> 0 \<and>
    position y + velocity y * dt < TRACK_LENGTH \<and>
    0 \<ge> position y + velocity y * dt - 0.1 \<longrightarrow>
      calculatePhysics dt e (x, y) =
        Some (x\<lparr>velocity := ((mass x - e * mass y) * (- velocity x)
                               + (1 + e) * mass y * velocity y) / (mass x + mass y),
                position := (0 + (position y + velocity y * dt)) / 2 - 0.06\<rparr>,
              y\<lparr>velocity := ((1 + e) * mass x * (- velocity x)
                               + (mass y - e * mass x) * velocity y) / (mass x + mass y),
                position := (0 + (position y + velocity y * dt)) / 2 + 0.06\<rparr>)) \<and>
   (mass x + mass y \<noteq> 0 \<and> 0 < position x + velocity x * dt \<and>
    TRACK_LENGTH \<le> position y + velocity y * dt \<and>
    position x + velocity x * dt \<ge> TRACK_LENGTH - 0.1 \<longrightarrow>
      calculatePhysics dt e (x, y) =
        Some (x\<lparr>velocity := ((mass x - e * mass y) * velocity x
                               + (1 + e) * mass y * (- velocity y)) / (mass x + mass y),
                position := ((position x + velocity x * dt) + TRACK_LENGTH) / 2 - 0.06\<rparr>,
              y\<lparr>velocity := ((1 + e) * mass x * velocity x
                               + (mass y - e * mass x) * (- velocity y)) / (mass x + mass y),
                position := ((position x + velocity x * dt) + TRACK_LENGTH) / 2 + 0.06\<rparr>)) \<and>
   (contact (wall2 (wall1 (integrate dt (x, y)))) \<longleftrightarrow>
      (if position x + velocity x * dt \<le> 0 then 0 else position x + velocity x * dt)
        \<ge> (if TRACK_LENGTH \<le> position y + velocity y * dt then TRACK_LENGTH
            else position y + velocity y * dt) - 0.1)"
proof (intro conjI impI)
  let ?s = "wall2 (wall1 (integrate dt (x, y)))"
  assume h: "mass x + mass y \<noteq> 0 \<and> position x + velocity x * dt \<le> 0 \<and>
    position y + velocity y * dt < TRACK_LENGTH \<and>
    0 \<ge> position y + velocity y * dt - 0.1"
  have c: "contact ?s"
    using h by (simp add: contact_boundary)
  have m: "mass (b1 ?s) + mass (b2 ?s) \<noteq> 0"
    using h by (simp add: mass_boundary)
  show "calculatePhysics dt e (x, y) =
        Some (x\<lparr>velocity := ((mass x - e * mass y) * (- velocity x)
                               + (1 + e) * mass y * velocity y) / (mass x + mass y),
                position := (0 + (position y + velocity y * dt)) / 2 - 0.06\<rparr>,
              y\<lparr>velocity := ((1 + e) * mass x * (- velocity x)
                               + (mass y - e * mass x) * velocity y) / (mass x + mass y),
                position := (0 + (position y + velocity y * dt)) / 2 + 0.06\<rparr>)"
    using h
    by (simp add: calculatePhysics_def ballCollision_contact [OF c m] applyUpdates_def
        b1_boundary b2_boundary nextPos1_boundary nextPos2_boundary)
next
  let ?s = "wall2 (wall1 (integrate dt (x, y)))"
  assume h: "mass x + mass y \<noteq> 0 \<and> 0 < position x + velocity x * dt \<and>
    TRACK_LENGTH \<le> position y + velocity y * dt \<and>
    position x + velocity x * dt \<ge> TRACK_LENGTH - 0.1"
  have c: "contact ?s"
    using h by (simp add: contact_boundary)
  have m: "mass (b1 ?s) + mass (b2 ?s) \<noteq> 0"
    using h by (simp add: mass_boundary)
  show "calculatePhysics dt e (x, y) =
        Some (x\<lparr>velocity := ((mass x - e * mass y) * velocity x
                               + (1 + e) * mass y * (- velocity y)) / (mass x + mass y),
                position := ((position x + velocity x * dt) + TRACK_LENGTH) / 2 - 0.06\<rparr>,
              y\<lparr>velocity := ((1 + e) * mass x * velocity x
                               + (mass y - e * mass x) * (- velocity y)) / (mass x + mass y),
                position := ((position x + velocity x * dt) + TRACK_LENGTH) / 2 + 0.06\<rparr>)"
    using h
    by (simp add: calculatePhysics_def ballCollision_contact [OF c m] applyUpdates_def
        b1_boundary b2_boundary nextPos1_boundary nextPos2_boundary)
qed (rule contact_boundary)

theorem boundary_before_collision_witness:
  "(mass (initBall1\<lparr>position := 1/100, velocity := - 1\<rparr>)
      + mass (initBall2\<lparr>position := 15/100, velocity := - 1\<rparr>) \<noteq> 0 \<and>
    position (initBall1\<lparr>position := 1/100, velocity := - 1\<rparr>)
      + velocity (initBall1\<lparr>position := 1/100, velocity := - 1\<rparr>) * (1/10) \<le> 0 \<and>
    position (initBall2\<lparr>position := 15/100, velocity := - 1\<rparr>)
      + velocity (initBall2\<lparr>position := 15/100, velocity := - 1\<rparr>) * (1/10) < TRACK_LENGTH \<and>
    0 \<ge> position (initBall2\<lparr>position := 15/100, velocity := - 1\<rparr>)
      + velocity (initBall2\<lparr>position := 15/100, velocity := - 1\<rparr>) * (1/10) - 0.1) \<and>
   \<not> contact (integrate (1/10) (initBall1\<lparr>position := 1/100, velocity := - 1\<rparr>,
                               initBall2\<lparr>position := 15/100, velocity := - 1\<rparr>)) \<and>
   calculatePhysics (1/10) 1
     (initBall1\<lparr>position := 1/100, velocity := - 1\<rparr>,
      initBall2\<lparr>position := 15/100, velocity := - 1\<rparr>)
     = Some (initBall1\<lparr>position := - 35/1000, velocity := - 1\<rparr>,
             initBall2\<lparr>position := 85/1000, velocity := 1\<rparr>) \<and>
   (mass (initBall1\<lparr>position := 985/100, velocity := 1\<rparr>)
      + mass (initBall2\<lparr>position := 999/100, velocity := 1\<rparr>) \<noteq> 0 \<and>
    0 < position (initBall1\<lparr>position := 985/100, velocity := 1\<rparr>)
      + velocity (initBall1\<lparr>position := 985/100, velocity := 1\<rparr>) * (1/10) \<and>
    TRACK_LENGTH \<le> position (initBall2\<lparr>position := 999/100, velocity := 1\<rparr>)
      + velocity (initBall2\<lparr>position := 999/100, velocity := 1\<rparr>) * (1/10) \<and>
    position (initBall1\<lparr>position := 985/100, velocity := 1\<rparr>)
      + velocity (initBall1\<lparr>position := 985/100, velocity := 1\<rparr>) * (1/10)
      \<ge> TRACK_LENGTH - 0.1) \<and>
   \<not> contact (integrate (1/10) (initBall1\<lparr>position := 985/100, velocity := 1\<rparr>,
                               initBall2\<lparr>position := 999/100, velocity := 1\<rparr>)) \<and>
   calculatePhysics (1/10) 1
     (initBall1\<lparr>position := 985/100, velocity := 1\<rparr>,
      initBall2\<lparr>position := 999/100, velocity := 1\<rparr>)
     = Some (initBall1\<lparr>position := 9915/1000, velocity := - 1\<rparr>,
             initBall2\<lparr>position := 10035/1000, velocity := 1\<rparr>)"
  using boundary_before_collision [of "initBall1\<lparr>position := 1/100, velocity := - 1\<rparr>"
      "initBall2\<lparr>position := 15/100, velocity := - 1\<rparr>" "1/10" 1]
    boundary_before_collision [of "initBall1\<lparr>position := 985/100, velocity := 1\<rparr>"
      "initBall2\<lparr>position := 999/100, velocity := 1\<rparr>" "1/10" 1]
  by (simp add: ex_defs)

section \<open>A step with no time\<close>

text \<open>
  The claim C8 says that a step with \<open>dt = 0\<close> keeps both positions and changes a
  velocity only if the contact predicate holds for the entry positions. In the first
  step below body 1 sits on the left wall, far from body 2: the wall check negates its
  velocity. In the second the predicate holds on entry and both positions are
  overwritten by the separation.
\<close>

theorem zero_dt_counterexample:
  "calculatePhysics 0 1 (initBall1\<lparr>position := 0\<rparr>, initBall2)
     = Some (initBall1\<lparr>position := 0, velocity := - 3\<rparr>, initBall2) \<and>
   \<not> (position (initBall1\<lparr>position := 0\<rparr>) \<ge> position initBall2 - 0.1) \<and>
   velocity (initBall1\<lparr>position := 0, velocity := - 3\<rparr>) \<noteq> velocity (initBall1\<lparr>position := 0\<rparr>) \<and>
   calculatePhysics 0 1 (initBall1\<lparr>position := 5\<rparr>, initBall2\<lparr>position := 5\<rparr>)
     = Some (initBall1\<lparr>position := 494/100, velocity := - 2\<rparr>,
             initBall2\<lparr>position := 506/100, velocity := 3\<rparr>) \<and>
   position (initBall1\<lparr>position := 494/100, velocity := - 2\<rparr>)
     \<noteq> position (initBall1\<lparr>position := 5\<rparr>)"
  by (simp add: ex_defs)

text \<open>
  C8, amended. A step with \<open>dt = 0\<close> leaves both bodies as they are when body 1 is
  right of the left wall, body 2 is left of the right wall and the contact predicate is
  false for the entry positions. In a returning step with \<open>dt = 0\<close> a position changes
  only if the contact predicate holds for the clamped entry positions or the body is
  beyond its wall, and a velocity changes only if that predicate holds or the body is
  at or beyond its wall.
\<close>

theorem zero_dt_step:
  "(0 < position x \<and> position y < TRACK_LENGTH \<and> \<not> (position x \<ge> position y - 0.1) \<longrightarrow>
      calculatePhysics 0 e (x, y) = Some (x, y)) \<and>
   (calculatePhysics 0 e (x, y) = Some (x', y') \<longrightarrow>
      (position x' \<noteq> position x \<longrightarrow>
         contact (wall2 (wall1 (integrate 0 (x, y)))) \<or> position x < 0) \<and>
      (position y' \<noteq> position y \<longrightarrow>
         contact (wall2 (wall1 (integrate 0 (x, y)))) \<or> TRACK_LENGTH < position y) \<and>
      (velocity x' \<noteq> velocity x \<longrightarrow>
         contact (wall2 (wall1 (integrate 0 (x, y)))) \<or> position x \<le> 0) \<and>
      (velocity y' \<noteq> velocity y \<longrightarrow>
         contact (wall2 (wall1 (integrate 0 (x, y)))) \<or> TRACK_LENGTH \<le> position y)) \<and>
   (contact (wall2 (wall1 (integrate 0 (x, y)))) \<longleftrightarrow>
      (if position x \<le> 0 then 0 else position x)
        \<ge> (if TRACK_LENGTH \<le> position y then TRACK_LENGTH else position y) - 0.1)"
proof (intro conjI impI)
  assume "0 < position x \<and> position y < TRACK_LENGTH \<and> \<not> (position x \<ge> position y - 0.1)"
  then show "calculatePhysics 0 e (x, y) = Some (x, y)"
    by (simp add: calculatePhysics_def integrate_def wall1_def wall2_def contact_def
        ballCollision_def applyUpdates_def)
next
  show "contact (wall2 (wall1 (integrate 0 (x, y)))) \<longleftrightarrow>
      (if position x \<le> 0 then 0 else position x)
        \<ge> (if TRACK_LENGTH \<le> position y then TRACK_LENGTH else position y) - 0.1"
    using contact_boundary [of 0 x y] by simp
next
  let ?s = "wall2 (wall1 (integrate 0 (x, y)))"
  assume r: "calculatePhysics 0 e (x, y) = Some (x', y')"
  have nc: "\<not> contact ?s \<Longrightarrow>
      x' = (b1 ?s)\<lparr>position := nextPos1 ?s\<rparr> \<and> y' = (b2 ?s)\<lparr>position := nextPos2 ?s\<rparr>"
    using r by (simp add: calculatePhysics_def ballCollision_no_contact applyUpdates_def)
  show "position x' \<noteq> position x \<Longrightarrow> contact ?s \<or> position x < 0"
    using nc by (cases "contact ?s") (auto simp add: nextPos1_boundary split: if_splits)
  show "position y' \<noteq> position y \<Longrightarrow> contact ?s \<or> TRACK_LENGTH < position y"
    using nc by (cases "contact ?s") (auto simp add: nextPos2_boundary split: if_splits)
  show "velocity x' \<noteq> velocity x \<Longrightarrow> contact ?s \<or> position x \<le> 0"
    using nc by (cases "contact ?s") (auto simp add: b1_boundary split: if_splits)
  show "velocity y' \<noteq> velocity y \<Longrightarrow> contact ?s \<or> TRACK_LENGTH \<le> position y"
    using nc by (cases "contact ?s") (auto simp add: b2_boundary split: if_splits)
qed

theorem zero_dt_step_witness:
  "(0 < position initBall1 \<and> position initBall2 < TRACK_LENGTH \<and>
    \<not> (position initBall1 \<ge> position initBall2 - 0.1)) \<and>
   calculatePhysics 0 1 (initBall1, initBall2) = Some (initBall1, initBall2) \<and>
   calculatePhysics 0 1 (initBall1\<lparr>position := 0\<rparr>, initBall2\<lparr>position := 10\<rparr>)
     = Some (initBall1\<lparr>position := 0, velocity := - 3\<rparr>,
             initBall2\<lparr>position := 10, velocity := 2\<rparr>) \<and>
   velocity (initBall1\<lparr>position := 0, velocity := - 3\<rparr>) \<noteq> velocity (initBall1\<lparr>position := 0\<rparr>) \<and>
   velocity (initBall2\<lparr>position := 10, velocity := 2\<rparr>) \<noteq> velocity (initBall2\<lparr>position := 10\<rparr>) \<and>
   position (initBall1\<lparr>position := 0\<rparr>) \<le> 0 \<and>
   TRACK_LENGTH \<le> position (initBall2\<lparr>position := 10\<rparr>) \<and>
   calculatePhysics 0 1 (initBall1\<lparr>position := 5\<rparr>, initBall2\<lparr>position := 5\<rparr>)
     = Some (initBall1\<lparr>position := 494/100, velocity := - 2\<rparr>,
             initBall2\<lparr>position := 506/100, velocity := 3\<rparr>) \<and>
   position (initBall1\<lparr>position := 494/100, velocity := - 2\<rparr>)
     \<noteq> position (initBall1\<lparr>position := 5\<rparr>) \<and>
   position (initBall2\<lparr>position := 506/100, velocity := 3\<rparr>)
     \<noteq> position (initBall2\<lparr>position := 5\<rparr>) \<and>
   contact (wall2 (wall1 (integrate 0 (initBall1\<lparr>position := 5\<rparr>, initBall2\<lparr>position := 5\<rparr>))))"
  using zero_dt_step [of initBall1 initBall2 1 initBall1 initBall2]
    zero_dt_step [of "initBall1\<lparr>position := 0\<rparr>" "initBall2\<lparr>position := 10\<rparr>" 1
      "initBall1\<lparr>position := 0, velocity := - 3\<rparr>" "initBall2\<lparr>position := 10, velocity := 2\<rparr>"]
    zero_dt_step [of "initBall1\<lparr>position := 5\<rparr>" "initBall2\<lparr>position := 5\<rparr>" 1
      "initBall1\<lparr>position := 494/100, velocity := - 2\<rparr>"
      "initBall2\<lparr>position := 506/100, velocity := 3\<rparr>"]
  by (simp add: ex_defs)

section \<open>Reset\<close>

text \<open>
  The claim C9 says that after a reset both bodies equal the initial values supplied by
  the caller, mass included. The handler takes no values: in the state below the user
  has entered mass 5 and initial velocity 7 for body 1, and the reset leaves a body with
  mass 5 and velocity 3, which is neither what the user supplied nor the body the
  application was created with.
\<close>

theorem handleReset_counterexample:
  "ball1 (handleReset (initApp\<lparr>ball1 := initBall1\<lparr>mass := 5, velocity := 7\<rparr>,
                               ballsRef := (initBall1\<lparr>mass := 5, velocity := 7\<rparr>, initBall2)\<rparr>))
     = initBall1\<lparr>mass := 5\<rparr> \<and>
   initBall1\<lparr>mass := 5\<rparr> \<noteq> initBall1\<lparr>mass := 5, velocity := 7\<rparr> \<and>
   initBall1\<lparr>mass := 5\<rparr> \<noteq> initBall1"
  by (simp add: handleReset_def initApp_def initBall1_def initBall2_def)

text \<open>
  C9, amended. After a reset the simulation is paused, the elapsed time (state and ref)
  is 0, the sample history is empty, and in the React state as well as in the physics
  ref body 1 has position 2 and velocity 3 and body 2 has position 8 and velocity -2,
  the values the application starts with; mass, id, color and radius of each body keep
  the values they had before the reset.
\<close>

theorem handleReset_result:
  "isPlaying (handleReset s) = False \<and>
   time (handleReset s) = 0 \<and>
   totalTimeRef (handleReset s) = 0 \<and>
   dataHistory (handleReset s) = [] \<and>
   ball1 (handleReset s) = (ball1 s)\<lparr>position := 2, velocity := 3\<rparr> \<and>
   ball2 (handleReset s) = (ball2 s)\<lparr>position := 8, velocity := - 2\<rparr> \<and>
   ballsRef (handleReset s) = (ball1 (handleReset s), ball2 (handleReset s)) \<and>
   position (ball1 (handleReset s)) = position initBall1 \<and>
   velocity (ball1 (handleReset s)) = velocity initBall1 \<and>
   position (ball2 (handleReset s)) = position initBall2 \<and>
   velocity (ball2 (handleReset s)) = velocity initBall2 \<and>
   mass (ball1 (handleReset s)) = mass (ball1 s) \<and>
   mass (ball2 (handleReset s)) = mass (ball2 s) \<and>
   id_ball (ball1 (handleReset s)) = id_ball (ball1 s) \<and>
   id_ball (ball2 (handleReset s)) = id_ball (ball2 s) \<and>
   color (ball1 (handleReset s)) = color (ball1 s) \<and>
   color (ball2 (handleReset s)) = color (ball2 s) \<and>
   radius (ball1 (handleReset s)) = radius (ball1 s) \<and>
   radius (ball2 (handleReset s)) = radius (ball2 s)"
  by (simp add: handleReset_def initBall1_def initBall2_def)

section \<open>Frame of the step\<close>

text \<open>
  C10. A step changes only the position and the velocity of the two bodies: whenever it
  returns, mass, id, color and radius of each body are those of the input, whether or
  not a wall reflection or a collision took place.
\<close>

theorem calculatePhysics_frame:
  "calculatePhysics dt e (x, y) = Some (x', y') \<Longrightarrow>
     mass x' = mass x \<and> id_ball x' = id_ball x \<and> color x' = color x \<and> radius x' = radius x \<and>
     mass y' = mass y \<and> id_ball y' = id_ball y \<and> color y' = color y \<and> radius y' = radius y"
  by (auto simp add: step_defs split: if_splits)

theorem calculatePhysics_frame_witness:
  "calculatePhysics (1/10) 1 (initBall1\<lparr>position := 53/10\<rparr>, initBall2\<lparr>position := 58/10\<rparr>)
     = Some (initBall1\<lparr>position := 554/100, velocity := - 2\<rparr>,
             initBall2\<lparr>position := 566/100, velocity := 3\<rparr>) \<and>
   mass (initBall1\<lparr>position := 554/100, velocity := - 2\<rparr>) = mass (initBall1\<lparr>position := 53/10\<rparr>) \<and>
   id_ball (initBall1\<lparr>position := 554/100, velocity := - 2\<rparr>) = id_ball (initBall1\<lparr>position := 53/10\<rparr>) \<and>
   color (initBall1\<lparr>position := 554/100, velocity := - 2\<rparr>) = color (initBall1\<lparr>position := 53/10\<rparr>) \<and>
   radius (initBall1\<lparr>position := 554/100, velocity := - 2\<rparr>) = radius (initBall1\<lparr>position := 53/10\<rparr>) \<and>
   mass (initBall2\<lparr>position := 566/100, velocity := 3\<rparr>) = mass (initBall2\<lparr>position := 58/10\<rparr>) \<and>
   id_ball (initBall2\<lparr>position := 566/100, velocity := 3\<rparr>) = id_ball (initBall2\<lparr>position := 58/10\<rparr>) \<and>
   color (initBall2\<lparr>position := 566/100, velocity := 3\<rparr>) = color (initBall2\<lparr>position := 58/10\<rparr>) \<and>
   radius (initBall2\<lparr>position := 566/100, velocity := 3\<rparr>) = radius (initBall2\<lparr>position := 58/10\<rparr>)"
proof -
  have h: "calculatePhysics (1/10) 1 (initBall1\<lparr>position := 53/10\<rparr>, initBall2\<lparr>position := 58/10\<rparr>)
     = Some (initBall1\<lparr>position := 554/100, velocity := - 2\<rparr>,
             initBall2\<lparr>position := 566/100, velocity := 3\<rparr>)"
    by (simp add: step_defs initBall1_def initBall2_def)
  from calculatePhysics_frame [OF h] h show ?thesis by simp
qed


end
